theory Spec2Isabelle
  imports Main
begin

section \<open>Step sequencer (WorkoutPlayer.tsx, buildSteps)\<close>

text \<open>
  The numeric columns of a routine block are \<open>number | null\<close> in the source; they hold
  whole numbers, modelled as \<open>int option\<close> (\<open>None\<close> is \<open>null\<close>). Negative values are
  values of the source type and are kept.
\<close>

datatype BlockType = WARMUP | STANDARD | FINISHER | CARDIO | REGEN

datatype StepKind = COUNTDOWN | WORK | REST

record Exercise =
  ex_id :: string
  ex_name :: string
  instructions_short :: "string option"

record RoutineBlock =
  block_id :: string
  order_index :: int
  block_type :: BlockType
  exercise_id :: "string option"
  sets :: "int option"
  reps :: "int option"
  seconds_per_rep :: "int option"
  work_seconds :: "int option"
  rest_seconds :: "int option"
  exercise :: "Exercise option"

record Step =
  stepIndex :: nat
  kind :: StepKind
  blockType :: BlockType
  exerciseId :: "string option"
  exerciseName :: string
  durationSec :: int
  setNumber :: "int option"
  totalSets :: "int option"
  step_reps :: "int option"
  isLastSetOfExercise :: "bool option"

definition SECONDS_PER_REP :: int where
  "SECONDS_PER_REP = 2"

definition COUNTDOWN_BETWEEN_EXERCISES :: int where
  "COUNTDOWN_BETWEEN_EXERCISES = 3"

text \<open>\<open>x || d\<close> on a \<open>number | null\<close>: \<open>null\<close> and \<open>0\<close> are falsy.\<close>

definition orElse :: "int option \<Rightarrow> int \<Rightarrow> int" where
  "orElse x d = (case x of None \<Rightarrow> d | Some v \<Rightarrow> if v = 0 then d else v)"

definition setsOf :: "RoutineBlock \<Rightarrow> int" where
  "setsOf block = orElse (sets block) 1"

definition repsOf :: "RoutineBlock \<Rightarrow> int" where
  "repsOf block = orElse (reps block) 0"

definition restSecOf :: "RoutineBlock \<Rightarrow> int" where
  "restSecOf block = orElse (rest_seconds block) 60"

definition repsDuration :: "RoutineBlock \<Rightarrow> int" where
  "repsDuration block =
     (if repsOf block > 0 then repsOf block * SECONDS_PER_REP else 30)"

definition workDurationOf :: "RoutineBlock \<Rightarrow> int" where
  "workDurationOf block =
     (case work_seconds block of
        None \<Rightarrow> repsDuration block
      | Some w \<Rightarrow> if w \<noteq> 0 then w else repsDuration block)"

text \<open>\<open>block.exercise?.name || "Ejercicio"\<close>: a missing exercise and an empty name
  both give the default.\<close>

definition exerciseNameOf :: "RoutineBlock \<Rightarrow> string" where
  "exerciseNameOf block =
     (case exercise block of
        None \<Rightarrow> ''Ejercicio''
      | Some e \<Rightarrow> if ex_name e = [] then ''Ejercicio'' else ex_name e)"

text \<open>The three object literals that the loop pushes, as functions of the value of
  the counter \<open>stepIndex\<close> at the push.\<close>

definition countdownStep :: "RoutineBlock \<Rightarrow> nat \<Rightarrow> Step" where
  "countdownStep block idx =
     \<lparr> stepIndex = idx, kind = COUNTDOWN, blockType = block_type block,
       exerciseId = exercise_id block, exerciseName = exerciseNameOf block,
       durationSec = COUNTDOWN_BETWEEN_EXERCISES,
       setNumber = None, totalSets = None, step_reps = None,
       isLastSetOfExercise = None \<rparr>"

definition workStep :: "RoutineBlock \<Rightarrow> int \<Rightarrow> nat \<Rightarrow> Step" where
  "workStep block setNum idx =
     \<lparr> stepIndex = idx, kind = WORK, blockType = block_type block,
       exerciseId = exercise_id block, exerciseName = exerciseNameOf block,
       durationSec = workDurationOf block,
       setNumber = Some setNum, totalSets = Some (setsOf block),
       step_reps = (if repsOf block > 0 then Some (repsOf block) else None),
       isLastSetOfExercise = Some (setNum = setsOf block) \<rparr>"

definition restStep :: "RoutineBlock \<Rightarrow> nat \<Rightarrow> Step" where
  "restStep block idx =
     \<lparr> stepIndex = idx, kind = REST, blockType = block_type block,
       exerciseId = exercise_id block, exerciseName = exerciseNameOf block,
       durationSec = restSecOf block,
       setNumber = None, totalSets = None, step_reps = None,
       isLastSetOfExercise = None \<rparr>"

text \<open>The loop state is the array \<open>steps\<close> and the counter \<open>stepIndex\<close>;
  \<open>steps.push({stepIndex: stepIndex++, ...})\<close> appends and increments.\<close>

type_synonym loopState = "Step list \<times> nat"

definition push :: "(nat \<Rightarrow> Step) \<Rightarrow> loopState \<Rightarrow> loopState" where
  "push mk st = (fst st @ [mk (snd st)], Suc (snd st))"

text \<open>One pass of the inner \<open>for (setNum ...)\<close> body.\<close>

definition setBody :: "RoutineBlock list \<Rightarrow> nat \<Rightarrow> int \<Rightarrow> loopState \<Rightarrow> loopState" where
  "setBody activeBlocks blockIdx setNum st =
     (let block = activeBlocks ! blockIdx;
          isLastBlock = (int blockIdx = int (length activeBlocks) - 1);
          isLastSet = (setNum = setsOf block);
          st1 = push (workStep block setNum) st;
          st2 = (if \<not> isLastSet \<and> restSecOf block > 0
                 then push (restStep block) st1 else st1)
      in if isLastSet \<and> \<not> isLastBlock
         then (let nextBlock = activeBlocks ! (blockIdx + 1);
                   st3 = (if restSecOf block > 0
                          then push (restStep block) st2 else st2)
               in push (countdownStep nextBlock) st3)
         else st2)"

function forSets :: "RoutineBlock list \<Rightarrow> nat \<Rightarrow> int \<Rightarrow> loopState \<Rightarrow> loopState" where
  "forSets activeBlocks blockIdx setNum st =
     (if setNum \<le> setsOf (activeBlocks ! blockIdx)
      then forSets activeBlocks blockIdx (setNum + 1)
             (setBody activeBlocks blockIdx setNum st)
      else st)"
  by pat_completeness auto
termination
  by (relation "measure (\<lambda>(ab, k, n, st). nat (setsOf (ab ! k) + 1 - n))") auto

declare forSets.simps [simp del]

text \<open>One pass of the outer \<open>for (blockIdx ...)\<close> body.\<close>

definition blockBody :: "RoutineBlock list \<Rightarrow> nat \<Rightarrow> loopState \<Rightarrow> loopState" where
  "blockBody activeBlocks blockIdx st =
     (let block = activeBlocks ! blockIdx;
          st1 = (if blockIdx = 0 then push (countdownStep block) st else st)
      in forSets activeBlocks blockIdx 1 st1)"

function forBlocks :: "RoutineBlock list \<Rightarrow> nat \<Rightarrow> loopState \<Rightarrow> loopState" where
  "forBlocks activeBlocks blockIdx st =
     (if blockIdx < length activeBlocks
      then forBlocks activeBlocks (Suc blockIdx) (blockBody activeBlocks blockIdx st)
      else st)"
  by pat_completeness auto
termination
  by (relation "measure (\<lambda>(ab, k, st). length ab - k)") auto

declare forBlocks.simps [simp del]

definition activeBlocksOf :: "RoutineBlock list \<Rightarrow> bool \<Rightarrow> RoutineBlock list" where
  "activeBlocksOf blocks skipWarmup =
     (if skipWarmup then filter (\<lambda>b. block_type b \<noteq> WARMUP) blocks else blocks)"

definition buildSteps :: "RoutineBlock list \<Rightarrow> bool \<Rightarrow> Step list" where
  "buildSteps blocks skipWarmup =
     (let activeBlocks = activeBlocksOf blocks skipWarmup
      in if length activeBlocks = 0 then []
         else fst (forBlocks activeBlocks 0 ([], 0)))"





text \<open>Sample blocks for the concrete scenarios.\<close>

definition scenarioBlock :: "RoutineBlock \<Rightarrow> RoutineBlock" where
  "scenarioBlock b = b\<lparr> block_type := STANDARD, sets := Some 3, reps := Some 10,
       work_seconds := None, rest_seconds := Some 60 \<rparr>"



section \<open>Session persistence (workoutSessionStorage.ts)\<close>

text \<open>
  Times are milliseconds since the epoch, whole numbers (\<open>Date.now()\<close>), modelled as
  \<open>int\<close>; the clock reading of a call is a parameter \<open>now\<close>.

  A field of type \<open>number\<close> can also hold \<open>NaN\<close> or an infinity. The session record takes
  the type of its numeric fields as a parameter: \<open>int\<close> where the timing functions
  compute with finite whole numbers, \<open>jsnumber\<close> where an object is handed to
  \<open>saveWorkoutSession\<close>, which writes whatever numbers it is given.
\<close>

datatype PersistedSessionStatus = RUNNING | PAUSED

datatype jsnumber = Fin int | NaN | PosInfinity | NegInfinity

record 'n PersistedWorkoutSession =
  sessionId :: string
  status :: PersistedSessionStatus
  currentStepIndex :: 'n
  skipWarmup :: bool
  stepsSignature :: string
  workoutStartedAtMs :: 'n
  totalAccumulatedMs :: 'n
  stepStartedAtMs :: 'n
  stepOriginalDurationSec :: 'n
  stepAccumulatedMs :: 'n
  updatedAtMs :: 'n

definition STORAGE_PREFIX :: string where
  "STORAGE_PREFIX = ''forja_workout_session_''"

definition MAX_SESSION_AGE_MS :: int where
  "MAX_SESSION_AGE_MS = 4 * 60 * 60 * 1000"

text \<open>
  A JSON value as \<open>JSON.parse\<close> returns it. \<open>localStorage\<close> holds texts; a stored text
  is represented by what \<open>JSON.parse\<close> makes of it: \<open>Unparsable s\<close> is a text \<open>s\<close> on
  which it throws (the empty text included), \<open>Parsable v\<close> a text that parses to \<open>v\<close>,
  so that \<open>JSON.stringify\<close> of \<open>v\<close> is stored as \<open>Parsable v\<close>.
\<close>

datatype json =
    JNull
  | JBool bool
  | JNum int
  | JStr string
  | JArr "json list"
  | JObj "(string \<times> json) list"

datatype stored = Unparsable string | Parsable json

type_synonym localStorage = "string \<rightharpoonup> stored"

text \<open>Property read \<open>v.name\<close>; \<open>None\<close> is \<open>undefined\<close>. On \<open>null\<close> the read throws,
  which the caller handles before it gets here.\<close>

fun getProp :: "json \<Rightarrow> string \<Rightarrow> json option" where
  "getProp (JObj kvs) name = map_of kvs name"
| "getProp _ name = None"

text \<open>\<open>!v\<close>, \<open>typeof v !== "number"\<close> and \<open>typeof v !== "boolean"\<close>.\<close>

fun falsy :: "json option \<Rightarrow> bool" where
  "falsy None = True"
| "falsy (Some JNull) = True"
| "falsy (Some (JBool b)) = (b = False)"
| "falsy (Some (JNum n)) = (n = 0)"
| "falsy (Some (JStr s)) = (s = [])"
| "falsy (Some (JArr xs)) = False"
| "falsy (Some (JObj kvs)) = False"

fun notNumber :: "json option \<Rightarrow> bool" where
  "notNumber (Some (JNum n)) = False"
| "notNumber _ = True"

fun notBoolean :: "json option \<Rightarrow> bool" where
  "notBoolean (Some (JBool b)) = False"
| "notBoolean _ = True"

fun numberValue :: "json option \<Rightarrow> int option" where
  "numberValue (Some (JNum n)) = Some n"
| "numberValue _ = None"

definition isSessionStale :: "int \<Rightarrow> int \<Rightarrow> int \<Rightarrow> bool" where
  "isSessionStale now updatedAt maxAgeMs = (now - updatedAt > maxAgeMs)"

definition getStorageKey :: "string \<Rightarrow> string" where
  "getStorageKey sid = STORAGE_PREFIX @ sid"

definition clearWorkoutSession :: "localStorage \<Rightarrow> string \<Rightarrow> localStorage" where
  "clearWorkoutSession store sid = store (getStorageKey sid := None)"

text \<open>The condition of the validation \<open>if\<close> in \<open>loadWorkoutSession\<close>.\<close>

definition invalidSession :: "json \<Rightarrow> bool" where
  "invalidSession parsed =
     (falsy (getProp parsed ''sessionId'')
      \<or> falsy (getProp parsed ''status'')
      \<or> notNumber (getProp parsed ''currentStepIndex'')
      \<or> notBoolean (getProp parsed ''skipWarmup'')
      \<or> falsy (getProp parsed ''stepsSignature'')
      \<or> notNumber (getProp parsed ''workoutStartedAtMs'')
      \<or> notNumber (getProp parsed ''updatedAtMs''))"

text \<open>
  \<open>loadWorkoutSession\<close> returns the new store and the result (\<open>None\<close> is \<open>null\<close>).
  A missing key and an empty text leave through \<open>if (!stored)\<close>; a text that does not
  parse, and the text \<open>null\<close> (whose property read throws), leave through \<open>catch\<close>.
  Neither path removes anything. Past the validation \<open>updatedAtMs\<close> is a number, so
  the \<open>None\<close> branch of its read is never taken.
\<close>

definition loadWorkoutSession ::
    "int \<Rightarrow> localStorage \<Rightarrow> string \<Rightarrow> localStorage \<times> json option" where
  "loadWorkoutSession now store sid =
     (case store (getStorageKey sid) of
        None \<Rightarrow> (store, None)
      | Some (Unparsable s) \<Rightarrow> (store, None)
      | Some (Parsable JNull) \<Rightarrow> (store, None)
      | Some (Parsable parsed) \<Rightarrow>
          if invalidSession parsed then (clearWorkoutSession store sid, None)
          else (case numberValue (getProp parsed ''updatedAtMs'') of
                  None \<Rightarrow> (clearWorkoutSession store sid, None)
                | Some updatedAt \<Rightarrow>
                    if isSessionStale now updatedAt MAX_SESSION_AGE_MS
                    then (clearWorkoutSession store sid, None)
                    else (store, Some parsed)))"

definition statusName :: "PersistedSessionStatus \<Rightarrow> string" where
  "statusName st = (case st of RUNNING \<Rightarrow> ''RUNNING'' | PAUSED \<Rightarrow> ''PAUSED'')"

text \<open>The object that \<open>JSON.stringify\<close> writes for a session: a finite number is
  written as itself, \<open>NaN\<close> and the infinities as \<open>null\<close>.\<close>

fun numberJson :: "jsnumber \<Rightarrow> json" where
  "numberJson (Fin n) = JNum n"
| "numberJson NaN = JNull"
| "numberJson PosInfinity = JNull"
| "numberJson NegInfinity = JNull"

definition toJson :: "jsnumber PersistedWorkoutSession \<Rightarrow> json" where
  "toJson d = JObj
     [ (''sessionId'', JStr (sessionId d)),
       (''status'', JStr (statusName (status d))),
       (''currentStepIndex'', numberJson (currentStepIndex d)),
       (''skipWarmup'', JBool (skipWarmup d)),
       (''stepsSignature'', JStr (stepsSignature d)),
       (''workoutStartedAtMs'', numberJson (workoutStartedAtMs d)),
       (''totalAccumulatedMs'', numberJson (totalAccumulatedMs d)),
       (''stepStartedAtMs'', numberJson (stepStartedAtMs d)),
       (''stepOriginalDurationSec'', numberJson (stepOriginalDurationSec d)),
       (''stepAccumulatedMs'', numberJson (stepAccumulatedMs d)),
       (''updatedAtMs'', numberJson (updatedAtMs d)) ]"

text \<open>
  \<open>localStorage.setItem\<close> either stores the text or throws (quota exceeded, storage
  disabled); which of the two happens is up to the browser and is the parameter
  \<open>accepts\<close>. \<open>None\<close> is the exception.
\<close>

definition setItem :: "bool \<Rightarrow> localStorage \<Rightarrow> string \<Rightarrow> stored \<Rightarrow> localStorage option" where
  "setItem accepts store key v = (if accepts then Some (store (key \<mapsto> v)) else None)"

text \<open>\<open>saveWorkoutSession\<close> catches the exception of a failing write and only logs it:
  the store is then left as it was.\<close>

definition saveWorkoutSession ::
    "bool \<Rightarrow> int \<Rightarrow> localStorage \<Rightarrow> string \<Rightarrow> jsnumber PersistedWorkoutSession
      \<Rightarrow> localStorage" where
  "saveWorkoutSession accepts now store sid d =
     (let key = getStorageKey sid;
          toStore = d\<lparr> updatedAtMs := Fin now \<rparr>
      in case setItem accepts store key (Parsable (toJson toStore)) of
           None \<Rightarrow> store
         | Some store' \<Rightarrow> store')"

text \<open>A snapshot is structurally valid when the object written for it passes the
  validation of \<open>loadWorkoutSession\<close>.\<close>

definition structurallyValid :: "jsnumber PersistedWorkoutSession \<Rightarrow> bool" where
  "structurallyValid d = (\<not> invalidSession (toJson d))"

text \<open>\<open>Number.isFinite\<close>, and a snapshot all of whose numeric fields are finite.\<close>

fun isFinite :: "jsnumber \<Rightarrow> bool" where
  "isFinite (Fin n) = True"
| "isFinite NaN = False"
| "isFinite PosInfinity = False"
| "isFinite NegInfinity = False"

definition finiteNumbers :: "jsnumber PersistedWorkoutSession \<Rightarrow> bool" where
  "finiteNumbers d =
     (isFinite (currentStepIndex d) \<and> isFinite (workoutStartedAtMs d)
      \<and> isFinite (totalAccumulatedMs d) \<and> isFinite (stepStartedAtMs d)
      \<and> isFinite (stepOriginalDurationSec d) \<and> isFinite (stepAccumulatedMs d)
      \<and> isFinite (updatedAtMs d))"

text \<open>Reading a returned object at the type \<open>PersistedWorkoutSession\<close>: every field
  present with the type the declaration gives it.\<close>

fun stringValue :: "json option \<Rightarrow> string option" where
  "stringValue (Some (JStr s)) = Some s"
| "stringValue _ = None"

fun boolValue :: "json option \<Rightarrow> bool option" where
  "boolValue (Some (JBool b)) = Some b"
| "boolValue _ = None"

definition statusValue :: "json option \<Rightarrow> PersistedSessionStatus option" where
  "statusValue v =
     (case stringValue v of
        None \<Rightarrow> None
      | Some s \<Rightarrow> if s = ''RUNNING'' then Some RUNNING
                  else if s = ''PAUSED'' then Some PAUSED else None)"

definition fromJson :: "json \<Rightarrow> jsnumber PersistedWorkoutSession option" where
  "fromJson j =
     (case (stringValue (getProp j ''sessionId''), statusValue (getProp j ''status''),
            numberValue (getProp j ''currentStepIndex''), boolValue (getProp j ''skipWarmup''),
            stringValue (getProp j ''stepsSignature'')) of
        (Some sid, Some st, Some idx, Some skip, Some sig) \<Rightarrow>
          (case (numberValue (getProp j ''workoutStartedAtMs''),
                 numberValue (getProp j ''totalAccumulatedMs''),
                 numberValue (getProp j ''stepStartedAtMs''),
                 numberValue (getProp j ''stepOriginalDurationSec''),
                 numberValue (getProp j ''stepAccumulatedMs''),
                 numberValue (getProp j ''updatedAtMs'')) of
             (Some ws, Some ta, Some ss, Some dur, Some sa, Some up) \<Rightarrow>
               Some \<lparr> sessionId = sid, status = st, currentStepIndex = Fin idx,
                      skipWarmup = skip, stepsSignature = sig,
                      workoutStartedAtMs = Fin ws, totalAccumulatedMs = Fin ta,
                      stepStartedAtMs = Fin ss, stepOriginalDurationSec = Fin dur,
                      stepAccumulatedMs = Fin sa, updatedAtMs = Fin up \<rparr>
           | _ \<Rightarrow> None)
      | _ \<Rightarrow> None)"

text \<open>\<open>Math.ceil(x / 1000)\<close> and \<open>Math.floor(x / 1000)\<close> on a whole number \<open>x\<close>;
  \<open>div\<close> on \<open>int\<close> rounds down.\<close>

definition ceilDiv1000 :: "int \<Rightarrow> int" where
  "ceilDiv1000 x = - ((- x) div 1000)"

definition floorDiv1000 :: "int \<Rightarrow> int" where
  "floorDiv1000 x = x div 1000"

definition calculateStepRemaining :: "int PersistedWorkoutSession \<Rightarrow> int \<Rightarrow> int" where
  "calculateStepRemaining session nowMs =
     (let stepDurationMs = stepOriginalDurationSec session * 1000
      in if status session = PAUSED
         then (let remainingMs = stepDurationMs - stepAccumulatedMs session
               in max 0 (ceilDiv1000 remainingMs))
         else (let currentStepElapsedMs =
                     stepAccumulatedMs session + (nowMs - stepStartedAtMs session);
                   remainingMs = stepDurationMs - currentStepElapsedMs
               in max 0 (ceilDiv1000 remainingMs)))"

definition calculateTotalElapsed :: "int PersistedWorkoutSession \<Rightarrow> int \<Rightarrow> int" where
  "calculateTotalElapsed session nowMs =
     (if status session = PAUSED
      then floorDiv1000 (totalAccumulatedMs session)
      else (let currentRunMs = nowMs - workoutStartedAtMs session
            in floorDiv1000 (totalAccumulatedMs session + currentRunMs)))"

text \<open>The elapsed time of the current step in the words of the data model: the
  accumulated time, plus the time since the step (re)started while running.\<close>

definition stepElapsedMs :: "int PersistedWorkoutSession \<Rightarrow> int \<Rightarrow> int" where
  "stepElapsedMs session nowMs =
     (case status session of
        RUNNING \<Rightarrow> stepAccumulatedMs session + (nowMs - stepStartedAtMs session)
      | PAUSED \<Rightarrow> stepAccumulatedMs session)"

text \<open>Sample sessions and stored objects.\<close>

definition sampleSession :: "int PersistedWorkoutSession" where
  "sampleSession =
     \<lparr> sessionId = ''s1'', status = PAUSED, currentStepIndex = 2, skipWarmup = False,
       stepsSignature = ''warm_1_b1'', workoutStartedAtMs = 1000,
       totalAccumulatedMs = 23500, stepStartedAtMs = 4000,
       stepOriginalDurationSec = 60, stepAccumulatedMs = 20500, updatedAtMs = 0 \<rparr>"

definition sampleSnapshot :: "jsnumber PersistedWorkoutSession" where
  "sampleSnapshot =
     \<lparr> sessionId = ''s1'', status = RUNNING, currentStepIndex = Fin 2, skipWarmup = False,
       stepsSignature = ''warm_1_b1'', workoutStartedAtMs = Fin 1000,
       totalAccumulatedMs = Fin 23500, stepStartedAtMs = Fin 4000,
       stepOriginalDurationSec = Fin 60, stepAccumulatedMs = Fin 20500,
       updatedAtMs = Fin 0 \<rparr>"

definition partialObject :: json where
  "partialObject = JObj
     [ (''sessionId'', JStr ''s1''), (''status'', JStr ''RUNNING''),
       (''currentStepIndex'', JNum 2), (''skipWarmup'', JBool False),
       (''stepsSignature'', JStr ''warm_1_b1''), (''workoutStartedAtMs'', JNum 1000),
       (''updatedAtMs'', JNum 5000) ]"


section \<open>Beep guard (workoutAudio.ts)\<close>

text \<open>
  The module variable \<open>lastBeepKey\<close>, and the calls made to the effect functions so
  far, in order (an effect function is identified by a label of type \<open>'e\<close>).
\<close>

record 'e beepGuard =
  lastBeepKey :: string
  calls :: "'e list"

definition initialGuard :: "'e beepGuard" where
  "initialGuard = \<lparr> lastBeepKey = [], calls = [] \<rparr>"

definition beepOnce :: "string \<Rightarrow> 'e \<Rightarrow> 'e beepGuard \<Rightarrow> 'e beepGuard" where
  "beepOnce key beepFn g =
     (if key = lastBeepKey g then g
      else g\<lparr> lastBeepKey := key, calls := calls g @ [beepFn] \<rparr>)"

definition resetBeepGuard :: "'e beepGuard \<Rightarrow> 'e beepGuard" where
  "resetBeepGuard g = g\<lparr> lastBeepKey := [] \<rparr>"


section \<open>Timing of the player (WorkoutPlayer.tsx)\<close>

text \<open>
  The refs and state variables of the component that carry time. Each handler reads
  the clock once; that reading is its parameter \<open>now\<close>. Sound, persistence and the
  backend calls of the handlers do not touch these fields and are left out.
\<close>

datatype PlayerStatus = PS_READY | PS_RUNNING | PS_PAUSED | PS_FINISHED | PS_ABORTED

record Player =
  playerStatus :: PlayerStatus
  steps :: "Step list"
  playerStepIndex :: nat
  stepRemaining :: int
  totalElapsed :: int
  workoutStartedAtRef :: int
  totalAccumulatedRef :: int
  stepStartedAtRef :: int
  stepOriginalDurationRef :: int
  stepAccumulatedRef :: int

definition handleStart :: "int \<Rightarrow> Player \<Rightarrow> Player" where
  "handleStart now p =
     (let p1 = p\<lparr> workoutStartedAtRef := now, stepStartedAtRef := now,
                  totalAccumulatedRef := 0, stepAccumulatedRef := 0 \<rparr>;
          p2 = (case steps p1 of
                  [] \<Rightarrow> p1
                | s0 # _ \<Rightarrow> p1\<lparr> stepOriginalDurationRef := durationSec s0,
                                 stepRemaining := durationSec s0 \<rparr>)
      in p2\<lparr> playerStatus := PS_RUNNING \<rparr>)"

definition handlePause :: "int \<Rightarrow> Player \<Rightarrow> Player" where
  "handlePause now p =
     p\<lparr> totalAccumulatedRef := totalAccumulatedRef p + (now - workoutStartedAtRef p),
        stepAccumulatedRef := stepAccumulatedRef p + (now - stepStartedAtRef p),
        playerStatus := PS_PAUSED \<rparr>"

definition handleResume :: "int \<Rightarrow> Player \<Rightarrow> Player" where
  "handleResume now p =
     p\<lparr> workoutStartedAtRef := now, stepStartedAtRef := now,
        playerStatus := PS_RUNNING \<rparr>"

definition handleFinish :: "Player \<Rightarrow> Player" where
  "handleFinish p = p\<lparr> playerStatus := PS_FINISHED \<rparr>"

definition goToNextStep :: "int \<Rightarrow> Player \<Rightarrow> Player" where
  "goToNextStep now p =
     (let nextIndex = playerStepIndex p + 1
      in if nextIndex \<ge> length (steps p) then handleFinish p
         else (let nextStep = steps p ! nextIndex
               in p\<lparr> stepAccumulatedRef := 0, stepStartedAtRef := now,
                      stepOriginalDurationRef := durationSec nextStep,
                      stepRemaining := durationSec nextStep,
                      playerStepIndex := nextIndex \<rparr>))"

text \<open>One animation frame. \<open>now\<close> is the clock reading of \<open>tick\<close>, \<open>nowNext\<close> the
  later one that \<open>goToNextStep\<close> takes when the step is exhausted.\<close>

definition tick :: "int \<Rightarrow> int \<Rightarrow> Player \<Rightarrow> Player" where
  "tick now nowNext p =
     (let totalNowMs = totalAccumulatedRef p + (now - workoutStartedAtRef p);
          p1 = p\<lparr> totalElapsed := floorDiv1000 totalNowMs \<rparr>;
          stepElapsed = stepAccumulatedRef p + (now - stepStartedAtRef p);
          stepDurationMs = stepOriginalDurationRef p * 1000;
          remainingMs = max 0 (stepDurationMs - stepElapsed);
          remainingCeil = ceilDiv1000 remainingMs;
          p2 = p1\<lparr> stepRemaining := remainingCeil \<rparr>
      in if remainingMs \<le> 0 then goToNextStep nowNext p2 else p2)"

definition samplePlayer :: Player where
  "samplePlayer =
     \<lparr> playerStatus = PS_READY, steps = [], playerStepIndex = 0, stepRemaining = 0,
       totalElapsed = 0, workoutStartedAtRef = 0, totalAccumulatedRef = 0,
       stepStartedAtRef = 0, stepOriginalDurationRef = 20, stepAccumulatedRef = 0 \<rparr>"


section \<open>Session label (WorkoutPlayer.tsx, generateLabel in handleFinish)\<close>

text \<open>
  Strings are byte lists; the separator (the middle dot, U+00B7) is its two UTF-8
  bytes. \<open>toUpperCase\<close> is modelled on the ASCII letters, which is what day keys are
  made of.
\<close>

datatype Source = recommended | custom

definition MIDDOT :: string where
  "MIDDOT = [CHR 0xC2, CHR 0xB7]"

definition toUpperCase :: "char \<Rightarrow> char" where
  "toUpperCase c =
     (case map_of (zip ''abcdefghijklmnopqrstuvwxyz'' ''ABCDEFGHIJKLMNOPQRSTUVWXYZ'') c of
        None \<Rightarrow> c
      | Some u \<Rightarrow> u)"

fun splitOn :: "char \<Rightarrow> string \<Rightarrow> string list" where
  "splitOn sep [] = [[]]"
| "splitOn sep (c # cs) =
     (if c = sep then [] # splitOn sep cs
      else (case splitOn sep cs of
              [] \<Rightarrow> [[c]]
            | w # ws \<Rightarrow> (c # w) # ws))"

fun joinWith :: "string \<Rightarrow> string list \<Rightarrow> string" where
  "joinWith sep [] = []"
| "joinWith sep [w] = w"
| "joinWith sep (w # ws) = w @ sep @ joinWith sep ws"

definition capitalize :: "string \<Rightarrow> string" where
  "capitalize w = (case w of [] \<Rightarrow> [] | c # cs \<Rightarrow> toUpperCase c # cs)"

definition formattedDay :: "string \<Rightarrow> string" where
  "formattedDay dayKey = joinWith '' '' (map capitalize (splitOn (CHR ''_'') dayKey))"

text \<open>An optional string prop: \<open>undefined\<close> and the empty string are both falsy, and
  the prop is only read where it is truthy.\<close>

definition textOf :: "string option \<Rightarrow> string" where
  "textOf x = (case x of None \<Rightarrow> [] | Some s \<Rightarrow> s)"

definition given :: "string option \<Rightarrow> bool" where
  "given x = (textOf x \<noteq> [])"

definition generateLabel ::
    "Source \<Rightarrow> string option \<Rightarrow> string option \<Rightarrow> string \<Rightarrow> string" where
  "generateLabel source programKey dayKey routineTitle =
     (if source = custom then ''Custom '' @ MIDDOT @ '' '' @ routineTitle
      else if given programKey \<and> given dayKey
      then textOf programKey @ '' '' @ MIDDOT @ '' '' @ formattedDay (textOf dayKey)
      else if given programKey then textOf programKey
      else if routineTitle \<noteq> [] then routineTitle else ''Entrenamiento'')"

text \<open>The label convention in the words of the interface description: the program
  form whenever both keys are present, else the custom form, else the bare title.\<close>

definition labelConvention ::
    "Source \<Rightarrow> string option \<Rightarrow> string option \<Rightarrow> string \<Rightarrow> string" where
  "labelConvention source programKey dayKey routineTitle =
     (if given programKey \<and> given dayKey
      then textOf programKey @ '' '' @ MIDDOT @ '' '' @ formattedDay (textOf dayKey)
      else if source = custom then ''Custom '' @ MIDDOT @ '' '' @ routineTitle
      else routineTitle)"


section \<open>Properties of the step sequencer\<close>

subsection \<open>What the loops append\<close>
































lemmas buildSteps_eval =
  buildSteps_def activeBlocksOf_def forBlocks.simps blockBody_def forSets.simps
  setBody_def push_def setsOf_def restSecOf_def orElse_def Let_def

text \<open>
  C1. One STANDARD block with sets = 3, reps = 10, rest_seconds = 60 and no
  work_seconds (all other fields arbitrary), with either value of the skip-warmup flag,
  gives exactly six steps: COUNTDOWN (3 s), WORK set 1 (20 s), REST (60 s), WORK set 2
  (20 s), REST (60 s), WORK set 3 (20 s); the durations add up to 183 seconds.
\<close>

theorem buildSteps_scenario:
  "buildSteps [scenarioBlock b] skip =
     [ countdownStep (scenarioBlock b) 0,
       workStep (scenarioBlock b) 1 1,
       restStep (scenarioBlock b) 2,
       workStep (scenarioBlock b) 2 3,
       restStep (scenarioBlock b) 4,
       workStep (scenarioBlock b) 3 5 ]
   \<and> map (\<lambda>s. (kind s, durationSec s, setNumber s)) (buildSteps [scenarioBlock b] skip) =
     [ (COUNTDOWN, 3, None), (WORK, 20, Some 1), (REST, 60, None),
       (WORK, 20, Some 2), (REST, 60, None), (WORK, 20, Some 3) ]
   \<and> length (buildSteps [scenarioBlock b] skip) = 6
   \<and> sum_list (map durationSec (buildSteps [scenarioBlock b] skip)) = 183"
proof -
  have run: "buildSteps [scenarioBlock b] skip =
     [ countdownStep (scenarioBlock b) 0,
       workStep (scenarioBlock b) 1 1,
       restStep (scenarioBlock b) 2,
       workStep (scenarioBlock b) 2 3,
       restStep (scenarioBlock b) 4,
       workStep (scenarioBlock b) 3 5 ]"
    by (simp add: buildSteps_eval scenarioBlock_def eval_nat_numeral)
  show ?thesis
    unfolding run
    by (simp add: countdownStep_def workStep_def restStep_def workDurationOf_def
        repsDuration_def repsOf_def restSecOf_def orElse_def scenarioBlock_def
        SECONDS_PER_REP_def COUNTDOWN_BETWEEN_EXERCISES_def)
qed






section \<open>Properties of the timing\<close>

lemma floorDiv1000_bounds:
  "1000 * floorDiv1000 x \<le> x \<and> x < 1000 * floorDiv1000 x + 1000"
proof -
  have "x = 1000 * (x div 1000) + x mod 1000" by simp
  moreover have "0 \<le> x mod 1000" "x mod 1000 < 1000" by simp_all
  ultimately show ?thesis unfolding floorDiv1000_def by linarith
qed

lemma ceilDiv1000_bounds: "1000 * ceilDiv1000 x - 1000 < x \<and> x \<le> 1000 * ceilDiv1000 x"
proof -
  have "- x = 1000 * ((- x) div 1000) + (- x) mod 1000" by simp
  moreover have "0 \<le> (- x) mod 1000" "(- x) mod 1000 < 1000" by simp_all
  ultimately show ?thesis unfolding ceilDiv1000_def by linarith
qed

lemma ceilDiv1000_pos: "(ceilDiv1000 x \<le> 0) = (x \<le> 0)"
  using ceilDiv1000_bounds [of x] by linarith

lemma ceilDiv1000_max: "max 0 (ceilDiv1000 x) = ceilDiv1000 (max 0 x)"
proof (cases "x \<le> 0")
  case True
  then have "ceilDiv1000 x \<le> 0" by (simp add: ceilDiv1000_pos)
  moreover have "ceilDiv1000 0 = 0" by (simp add: ceilDiv1000_def)
  ultimately show ?thesis using True by (simp add: max_def)
next
  case False
  then have "\<not> ceilDiv1000 x \<le> 0" by (simp add: ceilDiv1000_pos)
  then show ?thesis using False by (simp add: max_def)
qed

lemma calculateStepRemaining_eq:
  "calculateStepRemaining s nowMs
     = max 0 (ceilDiv1000 (stepOriginalDurationSec s * 1000 - stepElapsedMs s nowMs))"
  by (cases "status s") (simp_all add: calculateStepRemaining_def stepElapsedMs_def Let_def)

text \<open>
  C6. For every persisted session and time, the remaining seconds of the current step
  are the ceiling of \<open>max 0 (stepOriginalDurationSec * 1000 - stepElapsedMs)\<close> over
  1000, where \<open>stepElapsedMs\<close> is the accumulated time plus the time since the step
  started when the session is RUNNING, and the accumulated time alone when it is PAUSED.
  The value is 0 only when no time remains, and it is the least number of whole seconds
  that covers the remaining milliseconds. A frame of the player that does not exhaust
  the step displays the same ceiling.
\<close>

theorem step_remaining_formula:
  "calculateStepRemaining s nowMs
     = ceilDiv1000 (max 0 (stepOriginalDurationSec s * 1000 - stepElapsedMs s nowMs))
   \<and> (calculateStepRemaining s nowMs = 0)
       = (stepOriginalDurationSec s * 1000 - stepElapsedMs s nowMs \<le> 0)
   \<and> 1000 * calculateStepRemaining s nowMs - 1000
       < max 0 (stepOriginalDurationSec s * 1000 - stepElapsedMs s nowMs)
   \<and> max 0 (stepOriginalDurationSec s * 1000 - stepElapsedMs s nowMs)
       \<le> 1000 * calculateStepRemaining s nowMs
   \<and> (0 < stepOriginalDurationRef p * 1000
            - (stepAccumulatedRef p + (nowMs - stepStartedAtRef p))
        \<longrightarrow> stepRemaining (tick nowMs nowNext p)
            = ceilDiv1000 (max 0 (stepOriginalDurationRef p * 1000
                - (stepAccumulatedRef p + (nowMs - stepStartedAtRef p)))))"
proof -
  let ?rem = "stepOriginalDurationSec s * 1000 - stepElapsedMs s nowMs"
  have eq: "calculateStepRemaining s nowMs = ceilDiv1000 (max 0 ?rem)"
    by (simp add: calculateStepRemaining_eq ceilDiv1000_max)
  have zero: "(calculateStepRemaining s nowMs = 0) = (?rem \<le> 0)"
    unfolding calculateStepRemaining_eq using ceilDiv1000_pos [of ?rem] by (auto simp: max_def)
  have bounds: "1000 * calculateStepRemaining s nowMs - 1000 < max 0 ?rem
      \<and> max 0 ?rem \<le> 1000 * calculateStepRemaining s nowMs"
    unfolding eq by (rule ceilDiv1000_bounds)
  have frame: "stepRemaining (tick nowMs nowNext p)
            = ceilDiv1000 (max 0 (stepOriginalDurationRef p * 1000
                - (stepAccumulatedRef p + (nowMs - stepStartedAtRef p))))"
    if "0 < stepOriginalDurationRef p * 1000
            - (stepAccumulatedRef p + (nowMs - stepStartedAtRef p))"
    using that by (simp add: tick_def Let_def max_def)
  show ?thesis using eq zero bounds frame by blast
qed

text \<open>
  C10. For a session whose status is PAUSED, the remaining time of the step and the
  total elapsed time are the same at any two clock values.
\<close>

theorem paused_readings_ignore_clock:
  assumes "status s = PAUSED"
  shows "calculateStepRemaining s t1 = calculateStepRemaining s t2
       \<and> calculateTotalElapsed s t1 = calculateTotalElapsed s t2"
  using assms by (simp add: calculateStepRemaining_def calculateTotalElapsed_def)

lemma goToNextStep_totalElapsed: "totalElapsed (goToNextStep n p) = totalElapsed p"
  by (simp add: goToNextStep_def handleFinish_def Let_def)

lemma tick_totalElapsed:
  "totalElapsed (tick now nowNext p)
     = floorDiv1000 (totalAccumulatedRef p + (now - workoutStartedAtRef p))"
  by (simp add: tick_def Let_def goToNextStep_totalElapsed)

text \<open>
  C5. Start at time \<open>T\<close>, pause at \<open>T + t1\<close>, resume at \<open>T + t1 + t2\<close> and take a
  frame at \<open>T + t1 + t2 + t3\<close> (times in milliseconds): the total elapsed time that the
  frame reports is \<open>t1 + t3\<close> in whole seconds, rounded down, so within one second of
  \<open>t1 + t3\<close>; the pause \<open>t2\<close> does not appear in it.
\<close>

theorem pause_resume_conserves_time:
  "totalElapsed (tick (T + t1 + t2 + t3) nowNext
       (handleResume (T + t1 + t2) (handlePause (T + t1) (handleStart T p))))
     = floorDiv1000 (t1 + t3)
   \<and> 1000 * floorDiv1000 (t1 + t3) \<le> t1 + t3
   \<and> t1 + t3 < 1000 * floorDiv1000 (t1 + t3) + 1000"
proof -
  have "totalAccumulatedRef (handleResume (T + t1 + t2) (handlePause (T + t1) (handleStart T p))) = t1"
    by (simp add: handleResume_def handlePause_def handleStart_def Let_def split: list.splits)
  moreover have "workoutStartedAtRef (handleResume (T + t1 + t2) (handlePause (T + t1) (handleStart T p))) = T + t1 + t2"
    by (simp add: handleResume_def)
  ultimately have "totalElapsed (tick (T + t1 + t2 + t3) nowNext
       (handleResume (T + t1 + t2) (handlePause (T + t1) (handleStart T p))))
     = floorDiv1000 (t1 + t3)"
    by (simp add: tick_totalElapsed)
  moreover have "1000 * floorDiv1000 (t1 + t3) \<le> t1 + t3
      \<and> t1 + t3 < 1000 * floorDiv1000 (t1 + t3) + 1000"
    by (rule floorDiv1000_bounds)
  ultimately show ?thesis by simp
qed


text \<open>
  C6 at a concrete input: a paused session with 39.5 s left reads 40; a player 1.5 s
  into a 20 s step displays 19.
\<close>

theorem step_remaining_formula_witness:
  "(0::int) < stepOriginalDurationRef samplePlayer * 1000
       - (stepAccumulatedRef samplePlayer + (1500 - stepStartedAtRef samplePlayer))
   \<and> stepRemaining (tick 1500 1500 samplePlayer) = 19
   \<and> calculateStepRemaining sampleSession 1500 = 40"
  using step_remaining_formula [of sampleSession 1500 samplePlayer 1500]
  by (simp add: sampleSession_def samplePlayer_def stepElapsedMs_def ceilDiv1000_def)

text \<open>
  C10 at a concrete input: the sample session is paused.
\<close>

theorem paused_readings_ignore_clock_witness:
  "status sampleSession = PAUSED
   \<and> calculateStepRemaining sampleSession 0 = calculateStepRemaining sampleSession 99999
   \<and> calculateTotalElapsed sampleSession 0 = calculateTotalElapsed sampleSession 99999"
  using paused_readings_ignore_clock [of sampleSession 0 99999]
  by (simp add: sampleSession_def)


section \<open>Properties of the persistence store\<close>

lemma isFinite_iff: "isFinite x = (\<exists>n. x = Fin n)"
  by (cases x) simp_all

lemma fromJson_toJson: "finiteNumbers d \<Longrightarrow> fromJson (toJson d) = Some d"
  by (cases d, cases "status d")
     (auto simp: finiteNumbers_def isFinite_iff fromJson_def toJson_def statusValue_def
        statusName_def)

lemma notNumber_numberJson: "notNumber (Some (numberJson x)) = (\<not> isFinite x)"
  by (cases x) simp_all

lemma invalidSession_toJson:
  "invalidSession (toJson d)
     = (sessionId d = [] \<or> stepsSignature d = [] \<or> \<not> isFinite (currentStepIndex d)
        \<or> \<not> isFinite (workoutStartedAtMs d) \<or> \<not> isFinite (updatedAtMs d))"
  by (cases "status d")
     (auto simp: invalidSession_def toJson_def statusName_def notNumber_numberJson)

lemma updatedAt_toJson:
  "numberValue (getProp (toJson (d\<lparr> updatedAtMs := Fin t \<rparr>)) ''updatedAtMs'') = Some t"
  by (simp add: toJson_def)

lemma toJson_not_null: "toJson d \<noteq> JNull"
  by (simp add: toJson_def)

lemma load_Parsable:
  "store (getStorageKey sid) = Some (Parsable parsed) \<Longrightarrow> parsed \<noteq> JNull \<Longrightarrow>
   loadWorkoutSession now store sid =
     (if invalidSession parsed then (clearWorkoutSession store sid, None)
      else (case numberValue (getProp parsed ''updatedAtMs'') of
              None \<Rightarrow> (clearWorkoutSession store sid, None)
            | Some updatedAt \<Rightarrow>
                if isSessionStale now updatedAt MAX_SESSION_AGE_MS
                then (clearWorkoutSession store sid, None)
                else (store, Some parsed)))"
  by (cases parsed) (auto simp: loadWorkoutSession_def)

lemma save_accepted:
  "saveWorkoutSession True now store sid d
     = store (getStorageKey sid \<mapsto> Parsable (toJson (d\<lparr> updatedAtMs := Fin now \<rparr>)))"
  by (simp add: saveWorkoutSession_def setItem_def)

lemma save_refused: "saveWorkoutSession False now store sid d = store"
  by (simp add: saveWorkoutSession_def setItem_def)

lemma load_rejects_invalid:
  assumes "store (getStorageKey sid) = Some (Parsable parsed)" "parsed \<noteq> JNull"
    and "invalidSession parsed"
  shows "loadWorkoutSession now store sid = (clearWorkoutSession store sid, None)"
  using assms by (simp add: load_Parsable)

lemma load_rejects_stale:
  assumes "store (getStorageKey sid) = Some (Parsable parsed)" "parsed \<noteq> JNull"
    and "numberValue (getProp parsed ''updatedAtMs'') = Some u"
    and "now - u > MAX_SESSION_AGE_MS"
  shows "loadWorkoutSession now store sid = (clearWorkoutSession store sid, None)"
  using assms by (simp add: load_Parsable isSessionStale_def)

lemma clear_removes: "clearWorkoutSession store sid (getStorageKey sid) = None"
  by (simp add: clearWorkoutSession_def)

lemma structurallyValid_iff:
  "structurallyValid d
     = (sessionId d \<noteq> [] \<and> stepsSignature d \<noteq> [] \<and> isFinite (currentStepIndex d)
        \<and> isFinite (workoutStartedAtMs d) \<and> isFinite (updatedAtMs d))"
  by (auto simp: structurallyValid_def invalidSession_toJson)

text \<open>
  C7 (as amended). For every session id and every structurally valid snapshot (one that
  passes the store's validation: \<open>sessionId\<close> and \<open>stepsSignature\<close> not empty, the
  validated numbers finite) whose numeric fields are all finite numbers, when the
  write to \<open>localStorage\<close> is accepted, loading after saving returns the saved object,
  which read back at the record type is the snapshot with \<open>updatedAtMs\<close> set to the
  time of the save and every other field unchanged, provided no more than the 4-hour
  window has passed between the save and the load. The store is left as the save
  wrote it.
\<close>

theorem save_load_roundtrip:
  assumes "structurallyValid d" and "finiteNumbers d"
    and "tLoad - tSave \<le> MAX_SESSION_AGE_MS"
    and "accepts"
  shows "loadWorkoutSession tLoad (saveWorkoutSession accepts tSave store sid d) sid
           = (saveWorkoutSession accepts tSave store sid d,
              Some (toJson (d\<lparr> updatedAtMs := Fin tSave \<rparr>)))
       \<and> fromJson (toJson (d\<lparr> updatedAtMs := Fin tSave \<rparr>))
           = Some (d\<lparr> updatedAtMs := Fin tSave \<rparr>)"
proof -
  let ?d = "d\<lparr> updatedAtMs := Fin tSave \<rparr>"
  let ?store = "saveWorkoutSession accepts tSave store sid d"
  have stored: "?store (getStorageKey sid) = Some (Parsable (toJson ?d))"
    using assms(4) by (simp add: save_accepted)
  have valid: "\<not> invalidSession (toJson ?d)"
    using assms(1) by (simp add: structurallyValid_iff invalidSession_toJson)
  have fresh: "\<not> isSessionStale tLoad tSave MAX_SESSION_AGE_MS"
    using assms(3) by (simp add: isSessionStale_def)
  have fin: "finiteNumbers ?d"
    using assms(2) by (simp add: finiteNumbers_def)
  have "loadWorkoutSession tLoad ?store sid = (?store, Some (toJson ?d))"
    using valid fresh load_Parsable [of ?store sid "toJson ?d" tLoad, OF stored toJson_not_null]
    by (simp add: updatedAt_toJson)
  then show ?thesis using fin by (simp add: fromJson_toJson)
qed

text \<open>
  C7, the amended statement at a concrete input: the sample snapshot saved at 1000 ms
  with an accepted write and loaded at 2000 ms.
\<close>

theorem save_load_roundtrip_witness:
  "structurallyValid sampleSnapshot \<and> finiteNumbers sampleSnapshot
   \<and> loadWorkoutSession 2000 (saveWorkoutSession True 1000 Map.empty ''s1'' sampleSnapshot) ''s1''
     = (saveWorkoutSession True 1000 Map.empty ''s1'' sampleSnapshot,
        Some (toJson (sampleSnapshot\<lparr> updatedAtMs := Fin 1000 \<rparr>)))
   \<and> fromJson (toJson (sampleSnapshot\<lparr> updatedAtMs := Fin 1000 \<rparr>))
     = Some (sampleSnapshot\<lparr> updatedAtMs := Fin 1000 \<rparr>)"
proof -
  have v: "structurallyValid sampleSnapshot"
    by (simp add: structurallyValid_iff sampleSnapshot_def)
  have f: "finiteNumbers sampleSnapshot"
    by (simp add: finiteNumbers_def sampleSnapshot_def)
  have t: "(2000::int) - 1000 \<le> MAX_SESSION_AGE_MS"
    by (simp add: MAX_SESSION_AGE_MS_def)
  show ?thesis
    using v f save_load_roundtrip [OF v f t, of True Map.empty "''s1''"] by simp
qed

text \<open>
  C7, counterexample to the claim as stated, which has no proviso on the write or on
  the numbers. When \<open>localStorage.setItem\<close> throws, \<open>saveWorkoutSession\<close> swallows
  the exception and the store stays as it was, here empty: the load returns null, not
  the snapshot. And a snapshot that passes the validation but holds \<open>NaN\<close> in
  \<open>stepAccumulatedMs\<close> is written with \<open>null\<close> in that field, so the object that the
  load returns is not equal to the snapshot there.
\<close>

theorem refused_write_or_nan_breaks_roundtrip:
  "structurallyValid sampleSnapshot
   \<and> loadWorkoutSession 2000 (saveWorkoutSession False 1000 Map.empty ''s1'' sampleSnapshot) ''s1''
     = (Map.empty, None)
   \<and> structurallyValid (sampleSnapshot\<lparr> stepAccumulatedMs := NaN \<rparr>)
   \<and> snd (loadWorkoutSession 2000
        (saveWorkoutSession True 1000 Map.empty ''s1''
           (sampleSnapshot\<lparr> stepAccumulatedMs := NaN \<rparr>)) ''s1'')
     = Some (toJson (sampleSnapshot\<lparr> stepAccumulatedMs := NaN, updatedAtMs := Fin 1000 \<rparr>))
   \<and> getProp (toJson (sampleSnapshot\<lparr> stepAccumulatedMs := NaN, updatedAtMs := Fin 1000 \<rparr>))
        ''stepAccumulatedMs'' = Some JNull
   \<and> fromJson (toJson (sampleSnapshot\<lparr> stepAccumulatedMs := NaN, updatedAtMs := Fin 1000 \<rparr>))
     = None"
proof -
  let ?n = "sampleSnapshot\<lparr> stepAccumulatedMs := NaN \<rparr>"
  have v: "structurallyValid sampleSnapshot"
    by (simp add: structurallyValid_iff sampleSnapshot_def)
  have refused: "loadWorkoutSession 2000
      (saveWorkoutSession False 1000 Map.empty ''s1'' sampleSnapshot) ''s1'' = (Map.empty, None)"
    by (simp add: save_refused loadWorkoutSession_def)
  have vn: "structurallyValid ?n"
    by (simp add: structurallyValid_iff sampleSnapshot_def)
  let ?store = "saveWorkoutSession True 1000 Map.empty ''s1'' ?n"
  have stored: "?store (getStorageKey ''s1'')
      = Some (Parsable (toJson (?n\<lparr> updatedAtMs := Fin 1000 \<rparr>)))"
    by (simp add: save_accepted)
  have valid: "\<not> invalidSession (toJson (?n\<lparr> updatedAtMs := Fin 1000 \<rparr>))"
    by (simp add: invalidSession_toJson sampleSnapshot_def)
  have "loadWorkoutSession 2000 ?store ''s1''
      = (?store, Some (toJson (?n\<lparr> updatedAtMs := Fin 1000 \<rparr>)))"
    using valid load_Parsable [of ?store "''s1''" "toJson (?n\<lparr> updatedAtMs := Fin 1000 \<rparr>)" 2000,
        OF stored toJson_not_null]
    by (simp add: updatedAt_toJson isSessionStale_def MAX_SESSION_AGE_MS_def)
  then have returned: "snd (loadWorkoutSession 2000 ?store ''s1'')
      = Some (toJson (sampleSnapshot\<lparr> stepAccumulatedMs := NaN, updatedAtMs := Fin 1000 \<rparr>))"
    by simp
  have null: "getProp (toJson (sampleSnapshot\<lparr> stepAccumulatedMs := NaN, updatedAtMs := Fin 1000 \<rparr>))
        ''stepAccumulatedMs'' = Some JNull"
    by (simp add: toJson_def)
  have unread: "fromJson (toJson (sampleSnapshot\<lparr> stepAccumulatedMs := NaN, updatedAtMs := Fin 1000 \<rparr>))
     = None"
    by (simp add: fromJson_def toJson_def sampleSnapshot_def statusValue_def statusName_def)
  show ?thesis using v refused vn returned null unread by simp
qed

text \<open>
  C3, the source at two inputs on which it departs from the claim. A text that is not
  JSON under the session's key: the load returns null and the record stays in the
  store. An object with the seven validated fields and none of \<open>totalAccumulatedMs\<close>,
  \<open>stepStartedAtMs\<close>, \<open>stepOriginalDurationSec\<close>, \<open>stepAccumulatedMs\<close>: the load returns it,
  although it is not a complete session.
\<close>

theorem load_keeps_malformed_and_returns_partial:
  "loadWorkoutSession 6000 [getStorageKey ''s1'' \<mapsto> Unparsable ''{oops''] ''s1''
     = ([getStorageKey ''s1'' \<mapsto> Unparsable ''{oops''], None)
   \<and> loadWorkoutSession 6000 [getStorageKey ''s1'' \<mapsto> Parsable partialObject] ''s1''
     = ([getStorageKey ''s1'' \<mapsto> Parsable partialObject], Some partialObject)
   \<and> getProp partialObject ''stepAccumulatedMs'' = None
   \<and> fromJson partialObject = None"
  by (simp add: loadWorkoutSession_def partialObject_def invalidSession_def
      isSessionStale_def MAX_SESSION_AGE_MS_def fromJson_def statusValue_def)

section \<open>Properties of the beep guard\<close>

lemma beepOnce_repeat:
  "calls (beepOnce key f (beepOnce key f' g)) = calls (beepOnce key f' g)"
  by (simp add: beepOnce_def)

lemma beepOnce_after_reset:
  "key \<noteq> [] \<Longrightarrow> calls (beepOnce key f (resetBeepGuard g)) = calls g @ [f]"
  by (simp add: beepOnce_def resetBeepGuard_def)

text \<open>
  C4, the source at the call sequence of the claim: after a reset, \<open>beepOnce\<close> with
  key a, then key b, then key a again runs the effect of key a twice, because only the
  last key is remembered.
\<close>

theorem beep_key_fires_again_after_other_key:
  "calls (beepOnce ''a'' f (beepOnce ''b'' g (beepOnce ''a'' f (resetBeepGuard st))))
     = calls st @ [f, g, f]"
  by (simp add: beepOnce_def resetBeepGuard_def)

section \<open>Properties of the session label\<close>

lemma splitOn_nonempty: "splitOn sep s \<noteq> []"
  by (induction s) (auto split: list.splits)

lemma splitOn_no_sep: "sep \<notin> set w \<Longrightarrow> splitOn sep w = [w]"
  by (induction w) auto

lemma splitOn_append: "splitOn sep (a @ sep # b) = splitOn sep a @ splitOn sep b"
proof (induction a)
  case Nil
  show ?case by simp
next
  case (Cons c a)
  obtain w ws where "splitOn sep a = w # ws"
    using splitOn_nonempty [of sep a] by (cases "splitOn sep a") auto
  then show ?case using Cons by simp
qed

lemma joinWith_append:
  "xs \<noteq> [] \<Longrightarrow> ys \<noteq> [] \<Longrightarrow>
   joinWith sep (xs @ ys) = joinWith sep xs @ sep @ joinWith sep ys"
proof (induction sep xs rule: joinWith.induct)
  case (1 sep)
  then show ?case by simp
next
  case (2 sep w)
  then show ?case by (cases ys) simp_all
next
  case (3 sep w v vs)
  then show ?case by simp
qed

lemma formattedDay_word: "CHR ''_'' \<notin> set w \<Longrightarrow> formattedDay w = capitalize w"
  by (simp add: formattedDay_def splitOn_no_sep)

lemma formattedDay_append:
  "formattedDay (a @ ''_'' @ b) = formattedDay a @ '' '' @ formattedDay b"
  using joinWith_append [of "map capitalize (splitOn (CHR ''_'') a)"
      "map capitalize (splitOn (CHR ''_'') b)" "'' ''"]
  by (simp add: formattedDay_def splitOn_append splitOn_nonempty)

text \<open>
  C8, counterexample to the claim as stated: for a custom session that carries a
  program key and a day key the label is the custom form, not the program form that the
  convention asks for whenever program metadata is present.
\<close>

theorem custom_label_despite_program_metadata:
  "generateLabel custom (Some ''ppl'') (Some ''push_day'') ''Mine''
     = ''Custom '' @ MIDDOT @ '' Mine''
   \<and> labelConvention custom (Some ''ppl'') (Some ''push_day'') ''Mine''
     = ''ppl '' @ MIDDOT @ '' Push Day''
   \<and> generateLabel custom (Some ''ppl'') (Some ''push_day'') ''Mine''
     \<noteq> labelConvention custom (Some ''ppl'') (Some ''push_day'') ''Mine''"
  by (simp add: generateLabel_def labelConvention_def given_def textOf_def formattedDay_def
      capitalize_def toUpperCase_def MIDDOT_def)

text \<open>
  C8 (as amended). The label is "Custom (dot) title" whenever the source is custom,
  also when program metadata is present. Otherwise it is "programKey (dot) Title-cased
  dayKey" when both keys are present (given and non-empty); otherwise the program key
  alone when that is present; otherwise the routine title, or "Entrenamiento" when the
  title is empty. Title-casing capitalizes a word without underscores and turns each
  underscore into a space between the title-cased parts.
\<close>

theorem generateLabel_cases:
  "generateLabel custom pk dk title = ''Custom '' @ MIDDOT @ '' '' @ title
   \<and> (given pk \<and> given dk \<longrightarrow>
        generateLabel recommended pk dk title
          = textOf pk @ '' '' @ MIDDOT @ '' '' @ formattedDay (textOf dk))
   \<and> (given pk \<and> \<not> given dk \<longrightarrow> generateLabel recommended pk dk title = textOf pk)
   \<and> (\<not> given pk \<and> title \<noteq> [] \<longrightarrow> generateLabel recommended pk dk title = title)
   \<and> (\<not> given pk \<and> title = [] \<longrightarrow>
        generateLabel recommended pk dk title = ''Entrenamiento'')
   \<and> (CHR ''_'' \<notin> set w \<longrightarrow> formattedDay w = capitalize w)
   \<and> formattedDay (a @ ''_'' @ b) = formattedDay a @ '' '' @ formattedDay b"
proof -
  have "generateLabel custom pk dk title = ''Custom '' @ MIDDOT @ '' '' @ title"
    by (simp add: generateLabel_def)
  moreover have "generateLabel recommended pk dk title
      = (if given pk \<and> given dk
         then textOf pk @ '' '' @ MIDDOT @ '' '' @ formattedDay (textOf dk)
         else if given pk then textOf pk
         else if title \<noteq> [] then title else ''Entrenamiento'')"
    by (simp add: generateLabel_def)
  ultimately show ?thesis
    using formattedDay_word [of w] formattedDay_append [of a b] by auto
qed

text \<open>
  C8, the amended statement at concrete inputs, one for each case.
\<close>

theorem generateLabel_cases_witness:
  "generateLabel recommended (Some ''ppl'') (Some ''push_day'') ''Mine''
     = ''ppl '' @ MIDDOT @ '' Push Day''
   \<and> generateLabel recommended (Some ''ppl'') None ''Mine'' = ''ppl''
   \<and> generateLabel recommended None (Some ''push_day'') ''Mine'' = ''Mine''
   \<and> generateLabel recommended None None [] = ''Entrenamiento''
   \<and> generateLabel custom (Some ''ppl'') (Some ''push_day'') ''Mine''
     = ''Custom '' @ MIDDOT @ '' Mine''
   \<and> formattedDay ''push'' = ''Push''"
  using generateLabel_cases [of "Some ''ppl''" "Some ''push_day''" "''Mine''" "''push''"]
    generateLabel_cases [of "Some ''ppl''" None "''Mine''"]
    generateLabel_cases [of None "Some ''push_day''" "''Mine''"]
    generateLabel_cases [of None None "[]"]
  by (simp add: given_def textOf_def formattedDay_def capitalize_def toUpperCase_def)

end
